theory Spec2Isabelle
  imports Main "HOL-Library.Word" "HOL-Library.Sublist"
begin

section \<open>Values shared by the router and the DNS appliers\<close>

type_synonym byte = "8 word"

text \<open>
  The wait status of a finished child process, as \<^verbatim>\<open>os.ProcessState\<close> holds it: the
  process either exited with an 8-bit status or was ended by a signal.
  \<^verbatim>\<open>ExitCode()\<close> is the exit status of an exited process and \<^verbatim>\<open>-1\<close> otherwise.
\<close>

datatype ProcessState = Exited byte | Signaled nat

fun ExitCode :: "ProcessState \<Rightarrow> int" where
  "ExitCode (Exited st) = uint st"
| "ExitCode (Signaled sig) = - 1"

text \<open>
  Go errors as values. \<open>ErrorsNew\<close> is a package-level \<^verbatim>\<open>errors.New\<close> value,
  \<open>ExitError\<close> is \<^verbatim>\<open>*exec.ExitError\<close> (the child ran and did not succeed),
  \<open>OSError\<close> is any other failure handed back by the operating system or a library
  (a command that could not be started, a bus failure, an expired deadline), and
  \<open>Errorf\<close> is \<^verbatim>\<open>fmt.Errorf\<close> with its format string and arguments kept apart.
\<close>

datatype error =
    ErrorsNew string
  | OSError string
  | ExitError ProcessState
  | Errorf string "fmt_arg list"
and fmt_arg =
    ArgError error
  | ArgCmd "string list"
  | ArgBytes string

text \<open>\<^verbatim>\<open>var errNotReady = errors.New("interface not ready")\<close>\<close>

definition errNotReady :: error where
  "errNotReady = ErrorsNew ''interface not ready''"

text \<open>
  \<^verbatim>\<open>const dnsReconfigTimeout = time.Second\<close>; a \<^verbatim>\<open>time.Duration\<close> counts nanoseconds.
\<close>

definition Second :: nat where
  "Second = 1000000000"

definition dnsReconfigTimeout :: nat where
  "dnsReconfigTimeout = Second"

section \<open>IP addresses and DNS configuration\<close>

text \<open>
  A \<^verbatim>\<open>netaddr.IP\<close> holds either a \<^verbatim>\<open>[4]byte\<close> IPv4 address or a \<^verbatim>\<open>[16]byte\<close>
  IPv6 address; two IPs are equal when they are of the same kind with the same bytes.
\<close>

datatype IP =
    v4Addr byte byte byte byte
  | v6Addr byte byte byte byte byte byte byte byte byte byte byte byte byte byte byte byte

definition IPv4 :: "byte \<Rightarrow> byte \<Rightarrow> byte \<Rightarrow> byte \<Rightarrow> IP" where
  "IPv4 a b c d = v4Addr a b c d"

fun Is4 :: "IP \<Rightarrow> bool" where
  "Is4 (v4Addr a b c d) = True"
| "Is4 (v6Addr b0 b1 b2 b3 b4 b5 b6 b7 b8 b9 b10 b11 b12 b13 b14 b15) = False"

text \<open>\<^verbatim>\<open>As16\<close>: the 16-byte form; an IPv4 address becomes its IPv4-mapped IPv6 form.\<close>

fun As16 :: "IP \<Rightarrow> byte list" where
  "As16 (v4Addr a b c d) = [0, 0, 0, 0, 0, 0, 0, 0, 0, 0, 0xff, 0xff, a, b, c, d]"
| "As16 (v6Addr b0 b1 b2 b3 b4 b5 b6 b7 b8 b9 b10 b11 b12 b13 b14 b15) =
     [b0, b1, b2, b3, b4, b5, b6, b7, b8, b9, b10, b11, b12, b13, b14, b15]"

record DNSConfig =
  Nameservers :: "IP list"
  Domains :: "string list"

text \<open>\<^verbatim>\<open>var resolvedListenAddr = netaddr.IPv4(127, 0, 0, 53)\<close>\<close>

definition resolvedListenAddr :: IP where
  "resolvedListenAddr = IPv4 127 0 0 53"

section \<open>The world the DNS code talks to\<close>

text \<open>
  \<^verbatim>\<open>*net.Interface\<close>, of which the code reads \<^verbatim>\<open>Index\<close>.
\<close>

record Interface =
  Index :: int
  Name :: string

text \<open>The records sent over the bus (\<^verbatim>\<open>dns_resolved.go\<close>).\<close>

record resolvedLinkNameserver =
  Family :: int
  Address :: "byte list"

record resolvedLinkDomain =
  Domain :: string
  RoutingOnly :: bool

text \<open>\<^verbatim>\<open>unix.AF_INET\<close> and \<^verbatim>\<open>unix.AF_INET6\<close> on Linux.\<close>

definition AF_INET :: int where
  "AF_INET = 2"

definition AF_INET6 :: int where
  "AF_INET6 = 10"

text \<open>The arguments of the three bus methods the resolved applier calls.\<close>

datatype call_args =
    LinkDNS int "resolvedLinkNameserver list"
  | LinkDomains int "resolvedLinkDomain list"
  | Link int

text \<open>
  Every answer the operating system can give to the DNS code is a field of \<open>world\<close>:
  \<^item> \<open>lookPath name\<close>: whether \<^verbatim>\<open>exec.LookPath(name)\<close> finds the binary;
  \<^item> \<open>runCmd argv stdin\<close>: the combined output and the error of running a command;
  \<^item> \<open>resolvConf\<close>: the bytes of \<^verbatim>\<open>/etc/resolv.conf\<close>, \<open>None\<close> when it cannot
    be opened;
  \<^item> \<open>dnsReadConfig\<close>: the result of \<^verbatim>\<open>dnsReadConfig()\<close> of \<^verbatim>\<open>dns_direct.go\<close>
    (the parsed resolver file and an error);
  \<^item> \<open>dnsWriteConfig\<close>: the text \<^verbatim>\<open>dnsWriteConfig\<close> of \<^verbatim>\<open>dns_direct.go\<close> writes;
  \<^item> \<open>SystemBus\<close>: the error of \<^verbatim>\<open>dbus.SystemBus()\<close>;
  \<^item> \<open>Tailscale\<close>: the interface and the error of \<^verbatim>\<open>interfaces.Tailscale()\<close>;
  \<^item> \<open>busCall method args\<close>: the error of one bus method call.
  Within one call of an applier no operation is issued twice, so a function from the
  operation to its answer covers every behaviour of the system.
\<close>

record world =
  lookPath :: "string \<Rightarrow> bool"
  runCmd :: "string list \<Rightarrow> string \<Rightarrow> string \<times> error option"
  resolvConf :: "string option"
  dnsReadConfig :: "DNSConfig \<times> error option"
  dnsWriteConfig :: "IP list \<Rightarrow> string list \<Rightarrow> string"
  SystemBus :: "error option"
  Tailscale :: "Interface option \<times> error option"
  busCall :: "string \<Rightarrow> call_args \<Rightarrow> error option"

text \<open>
  What a call did, in order. A child operation carries the deadline it was issued
  under: \<open>Some d\<close> for a context made by \<^verbatim>\<open>context.WithTimeout\<close> with duration \<open>d\<close>,
  \<open>None\<close> when the code passes no context (\<^verbatim>\<open>exec.Command\<close>, \<^verbatim>\<open>dbus.SystemBus\<close>).
  Each event also records the answer the world gave.
\<close>

datatype event =
    EvExec "nat option" "string list" string "error option"
  | EvSystemBus "error option"
  | EvTailscale "Interface option" "error option"
  | EvCall "nat option" string call_args "error option"
  | EvConnClose

section \<open>resolvconf (\<^verbatim>\<open>router_default.go\<close>)\<close>

datatype resolvconfImplementation = resolvconfOpenresolv | resolvconfLegacy

text \<open>
  \<^verbatim>\<open>exec.Command("resolvconf", "-v").Run()\<close>: no context, no standard input.
  The legacy implementation is recognised by an \<^verbatim>\<open>*exec.ExitError\<close> whose exit
  code is 99.
\<close>

definition getResolvconfImplementation ::
    "world \<Rightarrow> resolvconfImplementation \<times> event list" where
  "getResolvconfImplementation w =
     (let err = snd (runCmd w [''resolvconf'', ''-v''] '''');
          ev = [EvExec None [''resolvconf'', ''-v''] '''' err]
      in case err of
           Some (ExitError exitErr) \<Rightarrow>
             if ExitCode exitErr = 99 then (resolvconfLegacy, ev)
             else (resolvconfOpenresolv, ev)
         | _ \<Rightarrow> (resolvconfOpenresolv, ev))"

text \<open>
  \<^verbatim>\<open>resolvconfIsActive\<close> reads \<^verbatim>\<open>/etc/resolv.conf\<close> through a \<^verbatim>\<open>bufio.Scanner\<close> with
  its default split function \<^verbatim>\<open>ScanLines\<close>: the tokens are the lines without their
  end-of-line marker (a newline, with one carriage return before it dropped), a last
  line without newline is a token when it has bytes, and scanning stops without a token
  at a line that does not end within \<^verbatim>\<open>MaxScanTokenSize\<close> bytes.
\<close>

definition MaxScanTokenSize :: nat where
  "MaxScanTokenSize = 64 * 1024"

definition dropCR :: "string \<Rightarrow> string" where
  "dropCR data = (if data \<noteq> [] \<and> last data = CHR 0x0D then butlast data else data)"

text \<open>\<open>scanFrom acc data\<close>: \<open>acc\<close> holds the bytes of the current line, last byte first.\<close>

fun scanFrom :: "string \<Rightarrow> string \<Rightarrow> string list" where
  "scanFrom acc [] = (if acc = [] then [] else [dropCR (rev acc)])"
| "scanFrom acc (c # cs) =
     (if c = CHR 0x0A then dropCR (rev acc) # scanFrom [] cs
      else if MaxScanTokenSize \<le> Suc (length acc) then []
      else scanFrom (c # acc) cs)"

definition ScanLines :: "string \<Rightarrow> string list" where
  "ScanLines content = scanFrom [] content"

text \<open>\<^verbatim>\<open>bytes.Contains(b, subslice)\<close>: \<open>subslice\<close> occurs in \<open>b\<close> as a contiguous run.\<close>

definition Contains :: "string \<Rightarrow> string \<Rightarrow> bool" where
  "Contains b subslice = sublist subslice b"

text \<open>
  The loop of \<^verbatim>\<open>resolvconfIsActive\<close> over the scanned lines: it gives up at the first
  line that has bytes and does not start with \<^verbatim>\<open>#\<close>, and succeeds at the first line
  before that which contains the word.
\<close>

fun scanComments :: "string list \<Rightarrow> bool" where
  "scanComments [] = False"
| "scanComments (line # rest) =
     (if length line > 0 \<and> line ! 0 \<noteq> CHR ''#'' then False
      else if Contains line ''resolvconf'' then True
      else scanComments rest)"

definition resolvconfIsActive :: "world \<Rightarrow> bool" where
  "resolvconfIsActive w =
     (if \<not> lookPath w ''resolvconf'' then False
      else case resolvConf w of
             None \<Rightarrow> False
           | Some f \<Rightarrow> scanComments (ScanLines f))"

text \<open>
  The leading comment block of the resolver file, in the words of the specification:
  the scanned lines before the first non-comment line. A line without bytes does not
  end the block.
\<close>

definition isCommentLine :: "string \<Rightarrow> bool" where
  "isCommentLine line = (line = [] \<or> hd line = CHR ''#'')"

definition leadingCommentBlock :: "string list \<Rightarrow> string list" where
  "leadingCommentBlock lines = takeWhile isCommentLine lines"

text \<open>The first non-comment line, when there is one.\<close>

definition firstNonCommentLine :: "string list \<Rightarrow> string option" where
  "firstNonCommentLine lines =
     (case dropWhile isCommentLine lines of [] \<Rightarrow> None | line # rest \<Rightarrow> Some line)"

definition resolvconfConfigName :: string where
  "resolvconfConfigName = ''tun-tailscale.inet''"

text \<open>
  \<^verbatim>\<open>dnsResolvconfUp\<close>: the probe, then one \<^verbatim>\<open>exec.Command(...)\<close> with the configuration
  on its standard input, run by \<^verbatim>\<open>CombinedOutput\<close>. Neither command is given a context.
\<close>

definition dnsResolvconfUp :: "DNSConfig \<Rightarrow> string \<Rightarrow> world \<Rightarrow> error option \<times> event list" where
  "dnsResolvconfUp config interfaceName w =
     (let (implementation, ev0) = getResolvconfImplementation w;
          stdin = dnsWriteConfig w (Nameservers config) (Domains config);
          cmd = (case implementation of
                   resolvconfOpenresolv \<Rightarrow>
                     [''resolvconf'', ''-m'', ''0'', ''-x'', ''-a'', resolvconfConfigName]
                 | resolvconfLegacy \<Rightarrow>
                     [''resolvconf'', ''-a'', resolvconfConfigName]);
          (out, err) = runCmd w cmd stdin;
          ev = ev0 @ [EvExec None cmd stdin err]
      in case err of
           Some e \<Rightarrow> (Some (Errorf ''running %s: %s'' [ArgCmd cmd, ArgBytes out]), ev)
         | None \<Rightarrow> (None, ev))"

definition dnsResolvconfDown :: "string \<Rightarrow> world \<Rightarrow> error option \<times> event list" where
  "dnsResolvconfDown interfaceName w =
     (let (implementation, ev0) = getResolvconfImplementation w;
          cmd = (case implementation of
                   resolvconfOpenresolv \<Rightarrow>
                     [''resolvconf'', ''-f'', ''-d'', resolvconfConfigName]
                 | resolvconfLegacy \<Rightarrow>
                     [''resolvconf'', ''-d'', resolvconfConfigName]);
          (out, err) = runCmd w cmd '''';
          ev = ev0 @ [EvExec None cmd '''' err]
      in case err of
           Some e \<Rightarrow> (Some (Errorf ''running %s: %s'' [ArgCmd cmd, ArgBytes out]), ev)
         | None \<Rightarrow> (None, ev))"

section \<open>systemd-resolved (\<^verbatim>\<open>dns_resolved.go\<close>)\<close>

text \<open>
  \<^verbatim>\<open>resolvedIsActive\<close>: \<^verbatim>\<open>systemctl\<close> is installed, \<^verbatim>\<open>systemctl is-active systemd-resolved\<close>
  runs without error, the resolver file can be read, and its only nameserver is the
  stub resolver's address.
\<close>

definition resolvedIsActive :: "world \<Rightarrow> bool" where
  "resolvedIsActive w =
     (if \<not> lookPath w ''systemctl'' then False
      else if snd (runCmd w [''systemctl'', ''is-active'', ''systemd-resolved''] '''') \<noteq> None
      then False
      else let (config, err) = dnsReadConfig w in
        if err \<noteq> None then False
        else if length (Nameservers config) = 1 \<and> Nameservers config ! 0 = resolvedListenAddr
        then True
        else False)"

text \<open>The bodies of the two loops of \<^verbatim>\<open>dnsResolvedUp\<close>, one entry each.\<close>

definition linkNameserver :: "IP \<Rightarrow> resolvedLinkNameserver" where
  "linkNameserver server =
     (let ip = As16 server in
      if Is4 server then \<lparr>Family = AF_INET, Address = drop 12 ip\<rparr>
      else \<lparr>Family = AF_INET6, Address = ip\<rparr>)"

definition linkDomain :: "string \<Rightarrow> resolvedLinkDomain" where
  "linkDomain domain = \<lparr>Domain = domain, RoutingOnly = False\<rparr>"

definition SetLinkDNS :: string where
  "SetLinkDNS = ''org.freedesktop.resolve1.Manager.SetLinkDNS''"

definition SetLinkDomains :: string where
  "SetLinkDomains = ''org.freedesktop.resolve1.Manager.SetLinkDomains''"

definition RevertLink :: string where
  "RevertLink = ''org.freedesktop.resolve1.Manager.RevertLink''"

text \<open>
  \<^verbatim>\<open>dnsResolvedUp\<close>. The context \<^verbatim>\<open>ctx\<close> is made with \<^verbatim>\<open>dnsReconfigTimeout\<close> and passed
  to both \<^verbatim>\<open>CallWithContext\<close>; \<^verbatim>\<open>dbus.SystemBus()\<close> takes no context. The deferred
  \<^verbatim>\<open>conn.Close()\<close> runs on every return after the connection was made.
\<close>

definition dnsResolvedUp :: "DNSConfig \<Rightarrow> world \<Rightarrow> error option \<times> event list" where
  "dnsResolvedUp config w =
     (case SystemBus w of
        Some err \<Rightarrow>
          (Some (Errorf ''connecting to system bus: %w'' [ArgError err]),
           [EvSystemBus (Some err)])
      | None \<Rightarrow>
          (let (iface, err) = Tailscale w;
               ev = [EvSystemBus None, EvTailscale iface err]
           in case err of
                Some e \<Rightarrow>
                  (Some (Errorf ''getting interface index: %w'' [ArgError e]),
                   ev @ [EvConnClose])
              | None \<Rightarrow>
                  (case iface of
                     None \<Rightarrow> (Some errNotReady, ev @ [EvConnClose])
                   | Some ifc \<Rightarrow>
                       (let linkNameservers = map linkNameserver (Nameservers config);
                            args1 = LinkDNS (Index ifc) linkNameservers;
                            err1 = busCall w SetLinkDNS args1;
                            ev1 = ev @ [EvCall (Some dnsReconfigTimeout) SetLinkDNS args1 err1]
                        in case err1 of
                             Some e \<Rightarrow>
                               (Some (Errorf ''SetLinkDNS: %w'' [ArgError e]),
                                ev1 @ [EvConnClose])
                           | None \<Rightarrow>
                               (let linkDomains = map linkDomain (Domains config);
                                    args2 = LinkDomains (Index ifc) linkDomains;
                                    err2 = busCall w SetLinkDomains args2;
                                    ev2 = ev1 @
                                      [EvCall (Some dnsReconfigTimeout) SetLinkDomains args2 err2]
                                in case err2 of
                                     Some e \<Rightarrow>
                                       (Some (Errorf ''SetLinkDomains: %w'' [ArgError e]),
                                        ev2 @ [EvConnClose])
                                   | None \<Rightarrow> (None, ev2 @ [EvConnClose]))))))"

text \<open>\<^verbatim>\<open>dnsResolvedDown\<close>. It does not close the connection.\<close>

definition dnsResolvedDown :: "world \<Rightarrow> error option \<times> event list" where
  "dnsResolvedDown w =
     (case SystemBus w of
        Some err \<Rightarrow>
          (Some (Errorf ''connecting to system bus: %w'' [ArgError err]),
           [EvSystemBus (Some err)])
      | None \<Rightarrow>
          (let (iface, err) = Tailscale w;
               ev = [EvSystemBus None, EvTailscale iface err]
           in case err of
                Some e \<Rightarrow>
                  (Some (Errorf ''getting interface index: %w'' [ArgError e]), ev)
              | None \<Rightarrow>
                  (case iface of
                     None \<Rightarrow> (Some errNotReady, ev)
                   | Some ifc \<Rightarrow>
                       (let args1 = Link (Index ifc);
                            err1 = busCall w RevertLink args1;
                            ev1 = ev @ [EvCall (Some dnsReconfigTimeout) RevertLink args1 err1]
                        in case err1 of
                             Some e \<Rightarrow> (Some (Errorf ''RevertLink: %w'' [ArgError e]), ev1)
                           | None \<Rightarrow> (None, ev1)))))"

text \<open>Reading a trace.\<close>

fun isCall :: "event \<Rightarrow> bool" where
  "isCall (EvCall d m a r) = True"
| "isCall e = False"

fun isExec :: "event \<Rightarrow> bool" where
  "isExec (EvExec d argv input r) = True"
| "isExec e = False"


text \<open>
  The deadlines of the child operations of a trace (commands run and bus calls made),
  in order; \<open>None\<close> stands for an operation issued without any deadline.
\<close>

fun deadlines :: "event list \<Rightarrow> nat option list" where
  "deadlines [] = []"
| "deadlines (EvCall d m a r # evs) = d # deadlines evs"
| "deadlines (EvExec d argv input r # evs) = d # deadlines evs"
| "deadlines (e # evs) = deadlines evs"

section \<open>The Windows router (\<^verbatim>\<open>router_windows.go\<close>)\<close>

text \<open>
  The device, the tunnel and a registered route-change callback are pointers the router
  only hands on; each is modelled by the identity of the object it points to.
\<close>

type_synonym Device = nat
type_synonym NativeTun = nat
type_synonym RouteChangeCallback = nat

text \<open>
  \<^verbatim>\<open>winRouter\<close>. The field \<^verbatim>\<open>logf\<close> is a function; what is logged through it is an
  event of the call. A nil \<^verbatim>\<open>routeChangeCallback\<close> is \<open>None\<close>.
\<close>

record winRouter =
  tunname :: string
  nativeTun :: NativeTun
  wgdev :: Device
  routeChangeCallback :: "RouteChangeCallback option"

text \<open>
  What the router calls and does not define in \<^verbatim>\<open>router_windows.go\<close>, over a state
  \<open>'s\<close> of the operating system and a type \<open>'cfg\<close> for \<^verbatim>\<open>Config\<close>:
  \<^verbatim>\<open>monitorDefaultRoutes\<close>, \<^verbatim>\<open>configureInterface\<close>, the \<^verbatim>\<open>Unregister\<close> method of the
  callback, and the package variable \<^verbatim>\<open>shutdownConfig\<close>.
\<close>

record ('s, 'cfg) windows =
  monitorDefaultRoutes ::
    "Device \<Rightarrow> bool \<Rightarrow> NativeTun \<Rightarrow> 's \<Rightarrow> (RouteChangeCallback option \<times> error option) \<times> 's"
  configureInterface :: "'cfg \<Rightarrow> NativeTun \<Rightarrow> 's \<Rightarrow> error option \<times> 's"
  Unregister :: "RouteChangeCallback \<Rightarrow> 's \<Rightarrow> error option \<times> 's"
  shutdownConfig :: "'cfg"

datatype 'cfg winEvent =
    CallMonitorDefaultRoutes Device bool NativeTun
  | CallConfigureInterface 'cfg NativeTun
  | CallUnregister RouteChangeCallback
  | Logf string "fmt_arg list"
  | LogFatalf string "fmt_arg list"

text \<open>
  A call either returns to its caller or ends the process: \<^verbatim>\<open>log.Fatalf\<close> prints and
  then calls \<^verbatim>\<open>os.Exit(1)\<close>.
\<close>

datatype 'a outcome = Returns 'a | Exits int

text \<open>
  A call gives its outcome, the router as the call leaves it, the state of the operating
  system, and the events of the call.
\<close>

definition winRouter_Up ::
    "('s, 'cfg) windows \<Rightarrow> winRouter \<Rightarrow> 's \<Rightarrow>
      error option outcome \<times> winRouter \<times> 's \<times> 'cfg winEvent list" where
  "winRouter_Up env r s =
     (let ((cb, err), s') = monitorDefaultRoutes env (wgdev r) True (nativeTun r) s;
          r' = r\<lparr>routeChangeCallback := cb\<rparr>;
          ev = [CallMonitorDefaultRoutes (wgdev r) True (nativeTun r)]
      in case err of
           Some e \<Rightarrow>
             (Exits 1, r', s', ev @ [LogFatalf ''MonitorDefaultRoutes: %v\<newline>'' [ArgError e]])
         | None \<Rightarrow> (Returns None, r', s', ev))"

definition winRouter_Set ::
    "('s, 'cfg) windows \<Rightarrow> winRouter \<Rightarrow> 'cfg option \<Rightarrow> 's \<Rightarrow>
      error option outcome \<times> winRouter \<times> 's \<times> 'cfg winEvent list" where
  "winRouter_Set env r cfg s =
     (let cfg' = (case cfg of None \<Rightarrow> shutdownConfig env | Some c \<Rightarrow> c);
          (err, s') = configureInterface env cfg' (nativeTun r) s;
          ev = [CallConfigureInterface cfg' (nativeTun r)]
      in case err of
           Some e \<Rightarrow>
             (Returns (Some e), r, s', ev @ [Logf ''ConfigureInterface: %v\<newline>'' [ArgError e]])
         | None \<Rightarrow> (Returns None, r, s', ev))"




section \<open>Concrete systems\<close>

text \<open>
  A Linux system on which nothing is installed, no file can be read, the bus cannot be
  reached and no tunnel interface exists; the systems below change it field by field.
\<close>

definition bare :: world where
  "bare = \<lparr>lookPath = (\<lambda>name. False),
           runCmd = (\<lambda>argv input. ('''', Some (OSError ''executable file not found''))),
           resolvConf = None,
           dnsReadConfig = (\<lparr>Nameservers = [], Domains = []\<rparr>, Some (OSError ''no such file'')),
           dnsWriteConfig = (\<lambda>ns ds. ''''),
           SystemBus = Some (OSError ''no system bus''),
           Tailscale = (None, None),
           busCall = (\<lambda>method args. None)\<rparr>"

text \<open>The resolver file of the specification's resolvconf scenario.\<close>

definition generatedByResolvconf :: string where
  "generatedByResolvconf = ''# Generated by resolvconf\<newline>nameserver 10.0.0.1\<newline>''"

definition withResolvconf :: world where
  "withResolvconf =
     bare\<lparr>lookPath := (\<lambda>name. name = ''resolvconf''),
          runCmd := (\<lambda>argv input. ('''', None)),
          resolvConf := Some generatedByResolvconf\<rparr>"

text \<open>The word only after the first non-comment line.\<close>

definition mentionedLate :: world where
  "mentionedLate =
     withResolvconf\<lparr>resolvConf := Some ''nameserver 10.0.0.1\<newline># resolvconf\<newline>''\<rparr>"

text \<open>resolved is active, and the resolver file lists a second nameserver after the stub.\<close>

definition twoNameservers :: world where
  "twoNameservers =
     bare\<lparr>lookPath := (\<lambda>name. name = ''systemctl''),
          runCmd := (\<lambda>argv input. ('''', None)),
          dnsReadConfig :=
            (\<lparr>Nameservers = [IPv4 127 0 0 53, IPv4 10 0 0 1], Domains = []\<rparr>, None)\<rparr>"


text \<open>The tunnel interface has index 3; every bus call succeeds.\<close>

definition ready :: world where
  "ready = bare\<lparr>SystemBus := None,
               Tailscale := (Some \<lparr>Index = 3, Name = ''tailscale0''\<rparr>, None)\<rparr>"

text \<open>As \<open>ready\<close>, but the bus call \<^verbatim>\<open>SetLinkDNS\<close> fails.\<close>

definition dnsCallFails :: world where
  "dnsCallFails =
     ready\<lparr>busCall := (\<lambda>method args.
        if method = SetLinkDNS then Some (OSError ''context deadline exceeded'') else None)\<rparr>"

definition oneOfEach :: DNSConfig where
  "oneOfEach =
     \<lparr>Nameservers = [IPv4 100 100 100 100, v6Addr 0xfd 0x7a 0x11 0x5c 0xa1 0xe0 0 0 0 0 0 0 0 0 0 1],
      Domains = [''example.com'']\<rparr>"

text \<open>
  Windows systems. The state counts, for each callback, how often it was unregistered.
  Registration fails on the first and hands out callback 7 on the second.
\<close>

definition registrationFails :: "(nat list, string) windows" where
  "registrationFails =
     \<lparr>monitorDefaultRoutes = (\<lambda>dev b tun s. ((None, Some (OSError ''access denied'')), s)),
      configureInterface = (\<lambda>cfg tun s. (None, s)),
      Unregister = (\<lambda>cb s. (None, cb # s)),
      shutdownConfig = ''''\<rparr>"

definition registrationWorks :: "(nat list, string) windows" where
  "registrationWorks =
     registrationFails\<lparr>monitorDefaultRoutes := (\<lambda>dev b tun s. ((Some 7, None), s))\<rparr>"

definition router0 :: winRouter where
  "router0 = \<lparr>tunname = ''Tailscale'', nativeTun = 1, wgdev = 2, routeChangeCallback = None\<rparr>"

section \<open>The probe of the resolvconf implementation\<close>

lemma ExitCode_99: "ExitCode ps = 99 \<longleftrightarrow> ps = Exited 99"
proof (cases ps)
  case (Exited st)
  have "uint st = 99 \<longleftrightarrow> st = 99"
    by (simp add: word_uint_eq_iff)
  then show ?thesis using Exited by simp
next
  case (Signaled sig)
  then show ?thesis by simp
qed

text \<open>
  C5. Whatever the probe \<^verbatim>\<open>resolvconf -v\<close> does, the classifier answers with the legacy
  implementation exactly when the probe ended as a process that exited with status 99,
  and with openresolv for every other outcome: success, another exit status, an end by
  signal, or a probe that could not be run at all.
\<close>

theorem getResolvconfImplementation_classifies:
  "fst (getResolvconfImplementation w) =
     (if snd (runCmd w [''resolvconf'', ''-v''] '''') = Some (ExitError (Exited 99))
      then resolvconfLegacy else resolvconfOpenresolv)"
  by (simp add: getResolvconfImplementation_def Let_def ExitCode_99
           split: option.splits error.splits)

section \<open>The backend detector\<close>

subsection \<open>Scanning the resolver file\<close>

text \<open>
  A line that ends within the token limit is delivered without its newline, and scanning
  goes on behind it.
\<close>

lemma scanFrom_line:
  "CHR 0x0A \<notin> set l \<Longrightarrow> length acc + length l < MaxScanTokenSize \<Longrightarrow>
   scanFrom acc (l @ CHR 0x0A # rest) = dropCR (rev acc @ l) # scanFrom [] rest"
proof (induction l arbitrary: acc)
  case Nil
  then show ?case by simp
next
  case (Cons c l)
  from Cons.prems have "c \<noteq> CHR 0x0A" and "CHR 0x0A \<notin> set l"
    and "\<not> MaxScanTokenSize \<le> Suc (length acc)"
    and "length (c # acc) + length l < MaxScanTokenSize"
    by auto
  with Cons.IH [of "c # acc"] show ?case by simp
qed

text \<open>
  A file of newline-terminated lines, each shorter than the token limit, is scanned back
  into these lines, a carriage return at the end of a line dropped.
\<close>

lemma ScanLines_lines:
  "\<forall>l \<in> set ls. CHR 0x0A \<notin> set l \<and> length l < MaxScanTokenSize \<Longrightarrow>
   ScanLines (concat (map (\<lambda>l. l @ [CHR 0x0A]) ls)) = map dropCR ls"
proof (induction ls)
  case Nil
  show ?case by (simp add: ScanLines_def)
next
  case (Cons l ls)
  then have "CHR 0x0A \<notin> set l" and "length [] + length l < MaxScanTokenSize"
    by simp_all
  from scanFrom_line [OF this, of "concat (map (\<lambda>l. l @ [CHR 0x0A]) ls)"] Cons
  show ?case by (simp add: ScanLines_def)
qed

subsection \<open>resolvconf\<close>

text \<open>The test of the loop and the comment lines of the specification are the same lines.\<close>

lemma isCommentLine_iff:
  "isCommentLine line \<longleftrightarrow> \<not> (length line > 0 \<and> line ! 0 \<noteq> CHR ''#'')"
  by (cases line) (simp_all add: isCommentLine_def)

text \<open>
  The loop succeeds exactly when a line of the leading comment block contains the word:
  it never looks past the first line that has bytes and does not start with \<^verbatim>\<open>#\<close>.
\<close>

lemma scanComments_iff:
  "scanComments lines \<longleftrightarrow>
     (\<exists>line \<in> set (leadingCommentBlock lines). Contains line ''resolvconf'')"
proof (induction lines)
  case Nil
  show ?case by (simp add: leadingCommentBlock_def)
next
  case (Cons line rest)
  show ?case
  proof (cases "isCommentLine line")
    case True
    then have "\<not> (length line > 0 \<and> line ! 0 \<noteq> CHR ''#'')"
      by (simp add: isCommentLine_iff)
    then show ?thesis using True Cons
      by (auto simp: leadingCommentBlock_def)
  next
    case False
    then have "length line > 0 \<and> line ! 0 \<noteq> CHR ''#''"
      by (simp add: isCommentLine_iff)
    then show ?thesis using False
      by (simp add: leadingCommentBlock_def)
  qed
qed



text \<open>
  C4, as stated, fails: in the resolver file of the scenario the first non-comment line is
  \<^verbatim>\<open>nameserver 10.0.0.1\<close>, which does not mention resolvconf, and the detector's test
  still answers yes, because the comment line before it does.
\<close>

theorem first_data_line_counterexample:
  "firstNonCommentLine (ScanLines generatedByResolvconf) = Some ''nameserver 10.0.0.1'' \<and>
   \<not> Contains ''nameserver 10.0.0.1'' ''resolvconf'' \<and>
   resolvconfIsActive withResolvconf"
proof -
  have lines: "ScanLines generatedByResolvconf =
      [''# Generated by resolvconf'', ''nameserver 10.0.0.1'']"
    by (simp add: generatedByResolvconf_def ScanLines_def MaxScanTokenSize_def dropCR_def)
  have "firstNonCommentLine (ScanLines generatedByResolvconf) = Some ''nameserver 10.0.0.1''"
    by (simp add: lines firstNonCommentLine_def isCommentLine_def)
  moreover have "\<not> Contains ''nameserver 10.0.0.1'' ''resolvconf''"
    by (simp add: Contains_def sublist_Cons_right)
  moreover have "resolvconfIsActive withResolvconf"
    by (simp add: resolvconfIsActive_def withResolvconf_def bare_def lines
          Contains_def sublist_Cons_right)
  ultimately show ?thesis by blast
qed

text \<open>
  C4, amended. For all resolver-file contents whose leading comment block contains no
  mention of \<^verbatim>\<open>resolvconf\<close>, the detector's test for resolvconf answers no, whatever
  the first non-comment line and the lines after it say.
\<close>

theorem resolvconfIsActive_needs_comment:
  assumes "\<forall>line \<in> set (leadingCommentBlock
              (case resolvConf w of None \<Rightarrow> [] | Some f \<Rightarrow> ScanLines f)).
             \<not> Contains line ''resolvconf''"
  shows "\<not> resolvconfIsActive w"
proof (cases "resolvConf w")
  case None
  then show ?thesis by (simp add: resolvconfIsActive_def)
next
  case (Some f)
  with assms have "\<not> scanComments (ScanLines f)"
    by (simp add: scanComments_iff)
  with Some show ?thesis by (simp add: resolvconfIsActive_def)
qed

text \<open>
  A file that mentions the word only in a comment after the first data line: the binary is
  installed, and resolvconf is not selected.
\<close>

theorem resolvconfIsActive_needs_comment_witness:
  "lookPath mentionedLate ''resolvconf'' \<and>
   resolvConf mentionedLate = Some ''nameserver 10.0.0.1\<newline># resolvconf\<newline>'' \<and>
   Contains ''# resolvconf'' ''resolvconf'' \<and>
   \<not> resolvconfIsActive mentionedLate"
proof -
  have fl: "resolvConf mentionedLate = Some ''nameserver 10.0.0.1\<newline># resolvconf\<newline>''"
    by (simp add: mentionedLate_def)
  have lines: "ScanLines ''nameserver 10.0.0.1\<newline># resolvconf\<newline>'' =
      [''nameserver 10.0.0.1'', ''# resolvconf'']"
    by (simp add: ScanLines_def MaxScanTokenSize_def dropCR_def)
  have block: "leadingCommentBlock [''nameserver 10.0.0.1'', ''# resolvconf''] = []"
    by (simp add: leadingCommentBlock_def isCommentLine_def)
  have "\<not> resolvconfIsActive mentionedLate"
    by (rule resolvconfIsActive_needs_comment) (simp add: fl lines block)
  moreover have "lookPath mentionedLate ''resolvconf''"
    by (simp add: mentionedLate_def withResolvconf_def bare_def)
  moreover have "Contains ''# resolvconf'' ''resolvconf''"
    by (simp add: Contains_def sublist_Cons_right)
  ultimately show ?thesis using fl by blast
qed

subsection \<open>systemd-resolved\<close>

text \<open>
  C2. The detector's test for resolved, \<^verbatim>\<open>resolvedIsActive\<close>, answers yes if and only if
  the service is reported active (\<^verbatim>\<open>systemctl\<close> is installed and
  \<^verbatim>\<open>systemctl is-active systemd-resolved\<close> runs without error) and the resolver file is
  read without error with 127.0.0.53 as its sole nameserver. With any further nameserver
  after the stub address the answer is no, whatever the service reports.
\<close>

theorem resolvedIsActive_iff:
  "(resolvedIsActive w \<longleftrightarrow>
      lookPath w ''systemctl'' \<and>
      snd (runCmd w [''systemctl'', ''is-active'', ''systemd-resolved''] '''') = None \<and>
      snd (dnsReadConfig w) = None \<and>
      Nameservers (fst (dnsReadConfig w)) = [v4Addr 127 0 0 53]) \<and>
   (1 < length (Nameservers (fst (dnsReadConfig w))) \<longrightarrow> \<not> resolvedIsActive w)"
proof -
  obtain config err where rc: "dnsReadConfig w = (config, err)"
    by (cases "dnsReadConfig w")
  have sole: "length ns = 1 \<and> ns ! 0 = a \<longleftrightarrow> ns = [a]" for ns :: "IP list" and a
    by (cases ns) auto
  have "resolvedIsActive w \<longleftrightarrow>
      lookPath w ''systemctl'' \<and>
      snd (runCmd w [''systemctl'', ''is-active'', ''systemd-resolved''] '''') = None \<and>
      snd (dnsReadConfig w) = None \<and>
      Nameservers (fst (dnsReadConfig w)) = [v4Addr 127 0 0 53]"
    unfolding resolvedIsActive_def rc sole
    by (simp add: resolvedListenAddr_def IPv4_def)
  then show ?thesis by auto
qed

text \<open>The service is active and the file lists 127.0.0.53 and 10.0.0.1: not selected.\<close>

theorem resolvedIsActive_iff_witness:
  "lookPath twoNameservers ''systemctl'' \<and>
   snd (runCmd twoNameservers [''systemctl'', ''is-active'', ''systemd-resolved''] '''') = None \<and>
   Nameservers (fst (dnsReadConfig twoNameservers)) = [v4Addr 127 0 0 53, v4Addr 10 0 0 1] \<and>
   \<not> resolvedIsActive twoNameservers"
proof -
  have ns: "Nameservers (fst (dnsReadConfig twoNameservers)) =
      [v4Addr 127 0 0 53, v4Addr 10 0 0 1]"
    by (simp add: twoNameservers_def IPv4_def)
  then have "1 < length (Nameservers (fst (dnsReadConfig twoNameservers)))"
    by simp
  with resolvedIsActive_iff [of twoNameservers]
  have "\<not> resolvedIsActive twoNameservers"
    by blast
  moreover have "lookPath twoNameservers ''systemctl''"
    by (simp add: twoNameservers_def bare_def)
  moreover have
    "snd (runCmd twoNameservers [''systemctl'', ''is-active'', ''systemd-resolved''] '''') = None"
    by (simp add: twoNameservers_def)
  ultimately show ?thesis using ns by simp
qed

section \<open>The resolved applier\<close>

subsection \<open>The paths through \<^verbatim>\<open>dnsResolvedUp\<close> and \<^verbatim>\<open>dnsResolvedDown\<close>\<close>

text \<open>Each lemma gives the returned error and the whole trace of one path.\<close>

lemma dnsResolvedUp_bus_fails:
  "SystemBus w = Some e \<Longrightarrow>
   dnsResolvedUp config w =
     (Some (Errorf ''connecting to system bus: %w'' [ArgError e]), [EvSystemBus (Some e)])"
  by (simp add: dnsResolvedUp_def)

lemma dnsResolvedUp_lookup_fails:
  "SystemBus w = None \<Longrightarrow> Tailscale w = (iface, Some e) \<Longrightarrow>
   dnsResolvedUp config w =
     (Some (Errorf ''getting interface index: %w'' [ArgError e]),
      [EvSystemBus None, EvTailscale iface (Some e), EvConnClose])"
  by (simp add: dnsResolvedUp_def)

lemma dnsResolvedUp_not_ready:
  "SystemBus w = None \<Longrightarrow> Tailscale w = (None, None) \<Longrightarrow>
   dnsResolvedUp config w =
     (Some errNotReady, [EvSystemBus None, EvTailscale None None, EvConnClose])"
  by (simp add: dnsResolvedUp_def)

lemma dnsResolvedUp_first_call_fails:
  "SystemBus w = None \<Longrightarrow> Tailscale w = (Some ifc, None) \<Longrightarrow>
   busCall w SetLinkDNS (LinkDNS (Index ifc) (map linkNameserver (Nameservers config))) = Some e \<Longrightarrow>
   dnsResolvedUp config w =
     (Some (Errorf ''SetLinkDNS: %w'' [ArgError e]),
      [EvSystemBus None, EvTailscale (Some ifc) None,
       EvCall (Some dnsReconfigTimeout) SetLinkDNS
         (LinkDNS (Index ifc) (map linkNameserver (Nameservers config))) (Some e),
       EvConnClose])"
  by (simp add: dnsResolvedUp_def)

lemma dnsResolvedUp_second_call:
  "SystemBus w = None \<Longrightarrow> Tailscale w = (Some ifc, None) \<Longrightarrow>
   busCall w SetLinkDNS (LinkDNS (Index ifc) (map linkNameserver (Nameservers config))) = None \<Longrightarrow>
   busCall w SetLinkDomains (LinkDomains (Index ifc) (map linkDomain (Domains config))) = res \<Longrightarrow>
   dnsResolvedUp config w =
     ((case res of None \<Rightarrow> None
       | Some e \<Rightarrow> Some (Errorf ''SetLinkDomains: %w'' [ArgError e])),
      [EvSystemBus None, EvTailscale (Some ifc) None,
       EvCall (Some dnsReconfigTimeout) SetLinkDNS
         (LinkDNS (Index ifc) (map linkNameserver (Nameservers config))) None,
       EvCall (Some dnsReconfigTimeout) SetLinkDomains
         (LinkDomains (Index ifc) (map linkDomain (Domains config))) res,
       EvConnClose])"
  by (cases res) (simp_all add: dnsResolvedUp_def)

lemma dnsResolvedDown_bus_fails:
  "SystemBus w = Some e \<Longrightarrow>
   dnsResolvedDown w =
     (Some (Errorf ''connecting to system bus: %w'' [ArgError e]), [EvSystemBus (Some e)])"
  by (simp add: dnsResolvedDown_def)

lemma dnsResolvedDown_lookup_fails:
  "SystemBus w = None \<Longrightarrow> Tailscale w = (iface, Some e) \<Longrightarrow>
   dnsResolvedDown w =
     (Some (Errorf ''getting interface index: %w'' [ArgError e]),
      [EvSystemBus None, EvTailscale iface (Some e)])"
  by (simp add: dnsResolvedDown_def)

lemma dnsResolvedDown_not_ready:
  "SystemBus w = None \<Longrightarrow> Tailscale w = (None, None) \<Longrightarrow>
   dnsResolvedDown w = (Some errNotReady, [EvSystemBus None, EvTailscale None None])"
  by (simp add: dnsResolvedDown_def)

lemma dnsResolvedDown_call:
  "SystemBus w = None \<Longrightarrow> Tailscale w = (Some ifc, None) \<Longrightarrow>
   busCall w RevertLink (Link (Index ifc)) = res \<Longrightarrow>
   dnsResolvedDown w =
     ((case res of None \<Rightarrow> None | Some e \<Rightarrow> Some (Errorf ''RevertLink: %w'' [ArgError e])),
      [EvSystemBus None, EvTailscale (Some ifc) None,
       EvCall (Some dnsReconfigTimeout) RevertLink (Link (Index ifc)) res])"
  by (cases res) (simp_all add: dnsResolvedDown_def)

text \<open>
  The paths through the two appliers: every system is on exactly one of them.
\<close>

lemma resolved_paths:
  "(\<exists>e. SystemBus w = Some e) \<or>
   (\<exists>iface e. SystemBus w = None \<and> Tailscale w = (iface, Some e)) \<or>
   (SystemBus w = None \<and> Tailscale w = (None, None)) \<or>
   (\<exists>ifc. SystemBus w = None \<and> Tailscale w = (Some ifc, None))"
proof (cases "SystemBus w")
  case None
  obtain iface err where t: "Tailscale w = (iface, err)"
    by (cases "Tailscale w")
  show ?thesis
  proof (cases err)
    case (Some e)
    with None t show ?thesis by blast
  next
    case noerr: None
    show ?thesis
    proof (cases iface)
      case (Some ifc)
      with None t noerr show ?thesis by blast
    next
      case noiface: None
      with None t noerr show ?thesis by blast
    qed
  qed
next
  case (Some e)
  then show ?thesis by blast
qed




subsection \<open>The bus calls of \<^verbatim>\<open>dnsResolvedUp\<close>\<close>






subsection \<open>\<^verbatim>\<open>dnsResolvedDown\<close> before the interface exists\<close>



section \<open>Deadlines of the child operations\<close>

lemma getResolvconfImplementation_events:
  "snd (getResolvconfImplementation w) =
     [EvExec None [''resolvconf'', ''-v''] '''' (snd (runCmd w [''resolvconf'', ''-v''] ''''))]"
  by (simp add: getResolvconfImplementation_def Let_def split: option.splits error.splits)

lemma dnsResolvconfUp_deadlines:
  "deadlines (snd (dnsResolvconfUp config interfaceName w)) = [None, None]"
proof -
  obtain impl ev0 where g: "getResolvconfImplementation w = (impl, ev0)"
    by (cases "getResolvconfImplementation w")
  with getResolvconfImplementation_events [of w]
  have ev0: "ev0 = [EvExec None [''resolvconf'', ''-v''] ''''
      (snd (runCmd w [''resolvconf'', ''-v''] ''''))]"
    by simp
  show ?thesis
    by (simp add: dnsResolvconfUp_def g ev0 Let_def split: prod.splits option.splits)
qed

lemma dnsResolvconfDown_deadlines:
  "deadlines (snd (dnsResolvconfDown interfaceName w)) = [None, None]"
proof -
  obtain impl ev0 where g: "getResolvconfImplementation w = (impl, ev0)"
    by (cases "getResolvconfImplementation w")
  with getResolvconfImplementation_events [of w]
  have ev0: "ev0 = [EvExec None [''resolvconf'', ''-v''] ''''
      (snd (runCmd w [''resolvconf'', ''-v''] ''''))]"
    by simp
  show ?thesis
    by (simp add: dnsResolvconfDown_def g ev0 Let_def split: prod.splits option.splits)
qed

lemma dnsResolvedUp_deadlines:
  "set (deadlines (snd (dnsResolvedUp config w))) \<subseteq> {Some dnsReconfigTimeout}"
proof -
  consider (bus) e where "SystemBus w = Some e"
    | (lookup) iface e where "SystemBus w = None" "Tailscale w = (iface, Some e)"
    | (absent) "SystemBus w = None" "Tailscale w = (None, None)"
    | (found) ifc where "SystemBus w = None" "Tailscale w = (Some ifc, None)"
    using resolved_paths [of w] by blast
  then show ?thesis
  proof cases
    case bus
    then show ?thesis by (simp add: dnsResolvedUp_bus_fails)
  next
    case lookup
    then show ?thesis by (simp add: dnsResolvedUp_lookup_fails)
  next
    case absent
    then show ?thesis by (simp add: dnsResolvedUp_not_ready)
  next
    case found
    show ?thesis
    proof (cases "busCall w SetLinkDNS
        (LinkDNS (Index ifc) (map linkNameserver (Nameservers config)))")
      case None
      from dnsResolvedUp_second_call [OF found None refl]
      show ?thesis by simp
    next
      case (Some e)
      from dnsResolvedUp_first_call_fails [OF found Some]
      show ?thesis by simp
    qed
  qed
qed

lemma dnsResolvedDown_deadlines:
  "set (deadlines (snd (dnsResolvedDown w))) \<subseteq> {Some dnsReconfigTimeout}"
proof -
  consider (bus) e where "SystemBus w = Some e"
    | (lookup) iface e where "SystemBus w = None" "Tailscale w = (iface, Some e)"
    | (absent) "SystemBus w = None" "Tailscale w = (None, None)"
    | (found) ifc where "SystemBus w = None" "Tailscale w = (Some ifc, None)"
    using resolved_paths [of w] by blast
  then show ?thesis
  proof cases
    case bus
    then show ?thesis by (simp add: dnsResolvedDown_bus_fails)
  next
    case lookup
    then show ?thesis by (simp add: dnsResolvedDown_lookup_fails)
  next
    case absent
    then show ?thesis by (simp add: dnsResolvedDown_not_ready)
  next
    case found
    from dnsResolvedDown_call [OF found refl]
    show ?thesis by simp
  qed
qed

lemma dnsResolvedUp_failed_call:
  "EvCall d m a (Some e) \<in> set (snd (dnsResolvedUp config w)) \<Longrightarrow>
   \<exists>fmt. fst (dnsResolvedUp config w) = Some (Errorf fmt [ArgError e])"
proof -
  assume ev: "EvCall d m a (Some e) \<in> set (snd (dnsResolvedUp config w))"
  consider (bus) e where "SystemBus w = Some e"
    | (lookup) iface e where "SystemBus w = None" "Tailscale w = (iface, Some e)"
    | (absent) "SystemBus w = None" "Tailscale w = (None, None)"
    | (found) ifc where "SystemBus w = None" "Tailscale w = (Some ifc, None)"
    using resolved_paths [of w] by blast
  then show ?thesis
  proof cases
    case bus
    with ev show ?thesis by (simp add: dnsResolvedUp_bus_fails)
  next
    case lookup
    with ev show ?thesis by (simp add: dnsResolvedUp_lookup_fails)
  next
    case absent
    with ev show ?thesis by (simp add: dnsResolvedUp_not_ready)
  next
    case found
    show ?thesis
    proof (cases "busCall w SetLinkDNS
        (LinkDNS (Index ifc) (map linkNameserver (Nameservers config)))")
      case None
      show ?thesis
      proof (cases "busCall w SetLinkDomains
          (LinkDomains (Index ifc) (map linkDomain (Domains config)))")
        case ok: None
        from dnsResolvedUp_second_call [OF found None ok] ev
        show ?thesis by simp
      next
        case (Some e')
        from dnsResolvedUp_second_call [OF found None Some] ev
        show ?thesis by auto
      qed
    next
      case (Some e')
      from dnsResolvedUp_first_call_fails [OF found Some] ev
      show ?thesis by auto
    qed
  qed
qed

lemma dnsResolvedDown_failed_call:
  "EvCall d m a (Some e) \<in> set (snd (dnsResolvedDown w)) \<Longrightarrow>
   \<exists>fmt. fst (dnsResolvedDown w) = Some (Errorf fmt [ArgError e])"
proof -
  assume ev: "EvCall d m a (Some e) \<in> set (snd (dnsResolvedDown w))"
  consider (bus) e where "SystemBus w = Some e"
    | (lookup) iface e where "SystemBus w = None" "Tailscale w = (iface, Some e)"
    | (absent) "SystemBus w = None" "Tailscale w = (None, None)"
    | (found) ifc where "SystemBus w = None" "Tailscale w = (Some ifc, None)"
    using resolved_paths [of w] by blast
  then show ?thesis
  proof cases
    case bus
    with ev show ?thesis by (simp add: dnsResolvedDown_bus_fails)
  next
    case lookup
    with ev show ?thesis by (simp add: dnsResolvedDown_lookup_fails)
  next
    case absent
    with ev show ?thesis by (simp add: dnsResolvedDown_not_ready)
  next
    case found
    show ?thesis
    proof (cases "busCall w RevertLink (Link (Index ifc))")
      case None
      from dnsResolvedDown_call [OF found None] ev
      show ?thesis by simp
    next
      case (Some e')
      from dnsResolvedDown_call [OF found Some] ev
      show ?thesis by auto
    qed
  qed
qed

text \<open>
  C7, as stated, fails: \<^verbatim>\<open>dnsResolvconfUp\<close> runs two commands, the probe and
  \<^verbatim>\<open>resolvconf -m 0 -x -a tun-tailscale.inet\<close>, and neither is issued under a deadline.
\<close>

theorem resolvconf_commands_counterexample:
  "snd (dnsResolvconfUp oneOfEach ''tailscale0'' withResolvconf) =
     [EvExec None [''resolvconf'', ''-v''] '''' None,
      EvExec None [''resolvconf'', ''-m'', ''0'', ''-x'', ''-a'', ''tun-tailscale.inet''] '''' None] \<and>
   deadlines (snd (dnsResolvconfUp oneOfEach ''tailscale0'' withResolvconf)) = [None, None]"
  by (simp add: dnsResolvconfUp_def getResolvconfImplementation_def withResolvconf_def
        bare_def resolvconfConfigName_def)

text \<open>
  C7, amended. Every bus method call made by \<^verbatim>\<open>dnsResolvedUp\<close> and \<^verbatim>\<open>dnsResolvedDown\<close>
  is issued under the deadline \<^verbatim>\<open>dnsReconfigTimeout\<close> of one second, and a bus call that
  fails (an expired deadline is such a failure) makes the applier return that error,
  wrapped, as its result. The commands run by \<^verbatim>\<open>dnsResolvconfUp\<close> and
  \<^verbatim>\<open>dnsResolvconfDown\<close>, two each, are issued without any deadline.
\<close>

theorem bus_calls_have_deadline:
  "(\<forall>d \<in> set (deadlines (snd (dnsResolvedUp config w))). d = Some dnsReconfigTimeout) \<and>
   (\<forall>d \<in> set (deadlines (snd (dnsResolvedDown w))). d = Some dnsReconfigTimeout) \<and>
   dnsReconfigTimeout = 1000000000 \<and>
   (\<forall>d m a e. EvCall d m a (Some e) \<in> set (snd (dnsResolvedUp config w)) \<longrightarrow>
      (\<exists>fmt. fst (dnsResolvedUp config w) = Some (Errorf fmt [ArgError e]))) \<and>
   (\<forall>d m a e. EvCall d m a (Some e) \<in> set (snd (dnsResolvedDown w)) \<longrightarrow>
      (\<exists>fmt. fst (dnsResolvedDown w) = Some (Errorf fmt [ArgError e]))) \<and>
   deadlines (snd (dnsResolvconfUp config interfaceName w)) = [None, None] \<and>
   deadlines (snd (dnsResolvconfDown interfaceName w)) = [None, None]"
proof -
  have "\<forall>d \<in> set (deadlines (snd (dnsResolvedUp config w))). d = Some dnsReconfigTimeout"
    using dnsResolvedUp_deadlines [of config w] by blast
  moreover
  have "\<forall>d \<in> set (deadlines (snd (dnsResolvedDown w))). d = Some dnsReconfigTimeout"
    using dnsResolvedDown_deadlines [of w] by blast
  moreover have "dnsReconfigTimeout = 1000000000"
    by (simp add: dnsReconfigTimeout_def Second_def)
  moreover
  have "\<forall>d m a e. EvCall d m a (Some e) \<in> set (snd (dnsResolvedUp config w)) \<longrightarrow>
      (\<exists>fmt. fst (dnsResolvedUp config w) = Some (Errorf fmt [ArgError e]))"
    using dnsResolvedUp_failed_call by blast
  moreover
  have "\<forall>d m a e. EvCall d m a (Some e) \<in> set (snd (dnsResolvedDown w)) \<longrightarrow>
      (\<exists>fmt. fst (dnsResolvedDown w) = Some (Errorf fmt [ArgError e]))"
    using dnsResolvedDown_failed_call by blast
  ultimately show ?thesis
    using dnsResolvconfUp_deadlines [of config interfaceName w]
      dnsResolvconfDown_deadlines [of interfaceName w]
    by blast
qed

text \<open>
  Two bus calls under one second each on the way up, one on the way down; and a
  \<^verbatim>\<open>SetLinkDNS\<close> that ends with an expired deadline is returned as an error.
\<close>

theorem bus_calls_have_deadline_witness:
  "deadlines (snd (dnsResolvedUp oneOfEach ready)) = [Some 1000000000, Some 1000000000] \<and>
   deadlines (snd (dnsResolvedDown ready)) = [Some 1000000000] \<and>
   EvCall (Some dnsReconfigTimeout) SetLinkDNS
     (LinkDNS 3 (map linkNameserver (Nameservers oneOfEach)))
     (Some (OSError ''context deadline exceeded''))
     \<in> set (snd (dnsResolvedUp oneOfEach dnsCallFails)) \<and>
   fst (dnsResolvedUp oneOfEach dnsCallFails) =
     Some (Errorf ''SetLinkDNS: %w'' [ArgError (OSError ''context deadline exceeded'')])"
proof -
  have p: "SystemBus ready = None"
    "Tailscale ready = (Some \<lparr>Index = 3, Name = ''tailscale0''\<rparr>, None)"
    by (simp_all add: ready_def)
  have c1: "busCall ready SetLinkDNS
      (LinkDNS (Index \<lparr>Index = 3, Name = ''tailscale0''\<rparr>)
         (map linkNameserver (Nameservers oneOfEach))) = None"
    by (simp add: ready_def bare_def)
  have up: "deadlines (snd (dnsResolvedUp oneOfEach ready)) =
      [Some dnsReconfigTimeout, Some dnsReconfigTimeout]"
    using dnsResolvedUp_second_call [OF p c1 refl] by simp
  have down: "deadlines (snd (dnsResolvedDown ready)) = [Some dnsReconfigTimeout]"
    using dnsResolvedDown_call [OF p refl] by simp
  have q: "SystemBus dnsCallFails = None"
    "Tailscale dnsCallFails = (Some \<lparr>Index = 3, Name = ''tailscale0''\<rparr>, None)"
    by (simp_all add: dnsCallFails_def ready_def)
  have c2: "busCall dnsCallFails SetLinkDNS
      (LinkDNS (Index \<lparr>Index = 3, Name = ''tailscale0''\<rparr>)
         (map linkNameserver (Nameservers oneOfEach))) =
      Some (OSError ''context deadline exceeded'')"
    by (simp add: dnsCallFails_def)
  have ev: "EvCall (Some dnsReconfigTimeout) SetLinkDNS
     (LinkDNS 3 (map linkNameserver (Nameservers oneOfEach)))
     (Some (OSError ''context deadline exceeded''))
     \<in> set (snd (dnsResolvedUp oneOfEach dnsCallFails))"
    using dnsResolvedUp_first_call_fails [OF q c2] by simp
  have err: "fst (dnsResolvedUp oneOfEach dnsCallFails) =
     Some (Errorf ''SetLinkDNS: %w'' [ArgError (OSError ''context deadline exceeded'')])"
    using dnsResolvedUp_first_call_fails [OF q c2] by simp
  note main = bus_calls_have_deadline [of oneOfEach dnsCallFails "''tailscale0''"]
  from main have t: "dnsReconfigTimeout = 1000000000"
    by blast
  from main ev have "\<exists>fmt. fst (dnsResolvedUp oneOfEach dnsCallFails) =
      Some (Errorf fmt [ArgError (OSError ''context deadline exceeded'')])"
    by blast
  with err show ?thesis
    using up down ev by (simp add: t)
qed

section \<open>Up, Set and Close of the Windows router\<close>

lemma winRouter_Up_fails:
  "monitorDefaultRoutes env (wgdev r) True (nativeTun r) s = ((cb, Some e), s') \<Longrightarrow>
   winRouter_Up env r s =
     (Exits 1, r\<lparr>routeChangeCallback := cb\<rparr>, s',
      [CallMonitorDefaultRoutes (wgdev r) True (nativeTun r),
       LogFatalf ''MonitorDefaultRoutes: %v\<newline>'' [ArgError e]])"
  by (simp add: winRouter_Up_def)

lemma winRouter_Up_works:
  "monitorDefaultRoutes env (wgdev r) True (nativeTun r) s = ((cb, None), s') \<Longrightarrow>
   winRouter_Up env r s =
     (Returns None, r\<lparr>routeChangeCallback := cb\<rparr>, s',
      [CallMonitorDefaultRoutes (wgdev r) True (nativeTun r)])"
  by (simp add: winRouter_Up_def)

text \<open>
  C1, amended. For every call of \<^verbatim>\<open>Up\<close> in which the registration of the route monitor
  fails, \<^verbatim>\<open>Up\<close> logs the failure with \<^verbatim>\<open>log.Fatalf\<close> and the process exits with
  status 1. When the registration succeeds, \<^verbatim>\<open>Up\<close> stores the callback and returns no
  error. \<^verbatim>\<open>Up\<close> never returns an error to its caller.
\<close>

theorem winRouter_Up_registration:
  "(snd (fst (monitorDefaultRoutes env (wgdev r) True (nativeTun r) s)) = Some e \<longrightarrow>
      fst (winRouter_Up env r s) = Exits 1 \<and>
      last (snd (snd (snd (winRouter_Up env r s)))) =
        LogFatalf ''MonitorDefaultRoutes: %v\<newline>'' [ArgError e]) \<and>
   (snd (fst (monitorDefaultRoutes env (wgdev r) True (nativeTun r) s)) = None \<longrightarrow>
      fst (winRouter_Up env r s) = Returns None \<and>
      routeChangeCallback (fst (snd (winRouter_Up env r s))) =
        fst (fst (monitorDefaultRoutes env (wgdev r) True (nativeTun r) s))) \<and>
   (\<forall>e'. fst (winRouter_Up env r s) \<noteq> Returns (Some e'))"
proof -
  obtain cb err s' where m:
    "monitorDefaultRoutes env (wgdev r) True (nativeTun r) s = ((cb, err), s')"
    by (metis prod.exhaust)
  show ?thesis
  proof (cases err)
    case None
    with m winRouter_Up_works [of env r s cb s'] show ?thesis by simp
  next
    case (Some e0)
    with m winRouter_Up_fails [of env r s cb e0 s'] show ?thesis by simp
  qed
qed

text \<open>
  C1, as stated, fails: the registration fails with an error, and \<^verbatim>\<open>Up\<close> does not
  return that error; the process exits.
\<close>

theorem registration_failure_counterexample:
  "monitorDefaultRoutes registrationFails (wgdev router0) True (nativeTun router0) [] =
     ((None, Some (OSError ''access denied'')), []) \<and>
   fst (winRouter_Up registrationFails router0 []) = Exits 1 \<and>
   fst (winRouter_Up registrationFails router0 []) \<noteq> Returns (Some (OSError ''access denied''))"
  by (simp add: winRouter_Up_def registrationFails_def router0_def)

text \<open>One system on which the registration fails, one on which it hands out callback 7.\<close>

theorem winRouter_Up_registration_witness:
  "snd (fst (monitorDefaultRoutes registrationFails (wgdev router0) True (nativeTun router0) []))
     = Some (OSError ''access denied'') \<and>
   fst (winRouter_Up registrationFails router0 []) = Exits 1 \<and>
   snd (fst (monitorDefaultRoutes registrationWorks (wgdev router0) True (nativeTun router0) []))
     = None \<and>
   fst (winRouter_Up registrationWorks router0 []) = Returns None \<and>
   routeChangeCallback (fst (snd (winRouter_Up registrationWorks router0 []))) = Some 7"
proof -
  have f: "snd (fst (monitorDefaultRoutes registrationFails (wgdev router0) True
      (nativeTun router0) [])) = Some (OSError ''access denied'')"
    by (simp add: registrationFails_def)
  have g: "snd (fst (monitorDefaultRoutes registrationWorks (wgdev router0) True
      (nativeTun router0) [])) = None"
    by (simp add: registrationWorks_def registrationFails_def)
  have cb: "fst (fst (monitorDefaultRoutes registrationWorks (wgdev router0) True
      (nativeTun router0) [])) = Some 7"
    by (simp add: registrationWorks_def registrationFails_def)
  from winRouter_Up_registration [of registrationFails router0 "[]" "OSError ''access denied''"] f
  have 1: "fst (winRouter_Up registrationFails router0 []) = Exits 1"
    by blast
  from winRouter_Up_registration [of registrationWorks router0 "[]" "OSError ''access denied''"] g
  have 2: "fst (winRouter_Up registrationWorks router0 []) = Returns None \<and>
      routeChangeCallback (fst (snd (winRouter_Up registrationWorks router0 []))) =
        fst (fst (monitorDefaultRoutes registrationWorks (wgdev router0) True
          (nativeTun router0) []))"
    by blast
  show ?thesis using f g 1 2 cb by simp
qed

text \<open>
  C8. For every router and every state of the system, \<^verbatim>\<open>Set(nil)\<close> does exactly what
  \<^verbatim>\<open>Set(&shutdownConfig)\<close> does: the same outcome, router, end state and events. It
  always returns, and what it returns is the error of \<^verbatim>\<open>configureInterface\<close> on the
  shutdown configuration, so a nil configuration is never an error by itself.
\<close>

theorem winRouter_Set_nil:
  "winRouter_Set env r None s = winRouter_Set env r (Some (shutdownConfig env)) s \<and>
   fst (winRouter_Set env r None s) =
     Returns (fst (configureInterface env (shutdownConfig env) (nativeTun r) s)) \<and>
   fst (snd (snd (winRouter_Set env r None s))) =
     snd (configureInterface env (shutdownConfig env) (nativeTun r) s)"
proof -
  obtain err s' where c:
    "configureInterface env (shutdownConfig env) (nativeTun r) s = (err, s')"
    by (cases "configureInterface env (shutdownConfig env) (nativeTun r) s")
  show ?thesis
    by (cases err) (simp_all add: winRouter_Set_def c)
qed






end
